theory Spec2Isabelle
  imports Complex_Main "HOL-Library.Log_Nat"
begin

section \<open>Python values used by screensaver\_app.py\<close>

text \<open>
  Exceptions that the modelled code can raise: a division or a modulo by zero, an index
  out of range, and the ValueError with which Pillow refuses to resize an image to an
  empty size. Other calls into libraries (Pillow, tkinter, \<^verbatim>\<open>os\<close>) are taken to return,
  except where the program itself catches their failure: decoding an image, querying the
  pointer, parsing a number typed in the form.
\<close>

datatype py_error = ZeroDivisionError | ValueError | IndexError

subsection \<open>Floats\<close>

text \<open>
  A Python float is an IEEE 754 binary64 number. Every finite float is a rational, so a
  float is modelled as the rational it denotes, and each float operation rounds its exact
  result to 53 significant bits, ties to even (\<open>fl\<close>). The exponent is not bounded here:
  the numbers the program computes are quotients and products of image and monitor sizes
  (C ints in Pillow and in the Win32 RECT) and clock readings, all far inside the range
  where binary64 neither overflows nor loses precision to subnormals.
\<close>

type_synonym pyfloat = rat

definition round_half_even :: "rat \<Rightarrow> int" where
  "round_half_even x =
     (let f = \<lfloor>x\<rfloor>; d = x - of_int f
      in if d < 1 / 2 then f
         else if 1 / 2 < d then f + 1
         else if even f then f else f + 1)"

definition pow2 :: "int \<Rightarrow> rat" where
  "pow2 e = (if 0 \<le> e then 2 ^ nat e else 1 / 2 ^ nat (- e))"

text \<open>\<open>floor_log2 x\<close> is the exponent \<open>e\<close> with \<open>2^e \<le> x < 2^(e+1)\<close>, for \<open>x > 0\<close>.\<close>

definition floor_log2 :: "rat \<Rightarrow> int" where
  "floor_log2 x =
     (let (p, q) = quotient_of x; e = bitlen p - bitlen q
      in if pow2 e \<le> x then e else e - 1)"

definition fl :: "rat \<Rightarrow> pyfloat" where
  "fl x =
     (if x = 0 then 0
      else let u = pow2 (floor_log2 \<bar>x\<bar> - 52)
           in of_int (round_half_even (x / u)) * u)"

text \<open>\<^verbatim>\<open>a / b\<close> on two ints: true division, correctly rounded.\<close>

definition true_div :: "int \<Rightarrow> int \<Rightarrow> py_error + pyfloat" where
  "true_div a b = (if b = 0 then Inl ZeroDivisionError else Inr (fl (of_int a / of_int b)))"

text \<open>\<^verbatim>\<open>i * r\<close> with an int and a float: the int is converted to a float, then multiplied.\<close>

definition int_mul_float :: "int \<Rightarrow> pyfloat \<Rightarrow> pyfloat" where
  "int_mul_float i r = fl (fl (of_int i) * r)"

text \<open>\<^verbatim>\<open>int(r)\<close> truncates towards zero.\<close>

definition int_of_float :: "pyfloat \<Rightarrow> int" where
  "int_of_float r = (if 0 \<le> r then \<lfloor>r\<rfloor> else \<lceil>r\<rceil>)"

section \<open>Images\<close>

text \<open>
  The program never looks at pixel values; it passes Pillow images around. The model keeps
  an image's size and, for each pixel, where it came from: computed from the pixels of a
  decoded picture (\<open>Sampled\<close>), the zero fill that \<^verbatim>\<open>crop\<close> puts where its box leaves the
  image (\<open>Zero\<close>), or the colour of a canvas made by \<^verbatim>\<open>Image.new\<close> (\<open>Canvas\<close>).
  Pillow's operations are modelled by what they return for the sizes they are given.
\<close>

datatype pixel = Sampled | Zero | Canvas string

record image =
  width :: int
  height :: int
  pix :: "int \<Rightarrow> int \<Rightarrow> pixel"

definition size_of :: "image \<Rightarrow> int \<times> int" where
  "size_of img = (width img, height img)"

text \<open>A decoded picture of the given size.\<close>

definition picture :: "int \<Rightarrow> int \<Rightarrow> image" where
  "picture w h = \<lparr>width = w, height = h, pix = (\<lambda>x y. Sampled)\<rparr>"

definition inside :: "image \<Rightarrow> int \<Rightarrow> int \<Rightarrow> bool" where
  "inside img x y = (0 \<le> x \<and> x < width img \<and> 0 \<le> y \<and> y < height img)"

text \<open>
  \<^verbatim>\<open>img.resize((w, h), Image.LANCZOS)\<close>. Asked for the size the image already has,
  Pillow returns a copy; otherwise it raises ValueError (height and width must be > 0)
  unless both are at least 1, and resamples every pixel from \<open>img\<close>.
\<close>

definition pil_resize :: "image \<Rightarrow> int \<times> int \<Rightarrow> py_error + image" where
  "pil_resize img sz =
     (if size_of img = sz then Inr img
      else if fst sz < 1 \<or> snd sz < 1 then Inl ValueError
      else Inr \<lparr>width = fst sz, height = snd sz, pix = (\<lambda>x y. Sampled)\<rparr>)"

text \<open>\<^verbatim>\<open>img.crop((left, top, right, bottom))\<close>.\<close>

definition pil_crop :: "image \<Rightarrow> int \<times> int \<times> int \<times> int \<Rightarrow> image" where
  "pil_crop img box =
     (case box of (l, t, r, b) \<Rightarrow>
        \<lparr>width = r - l, height = b - t,
         pix = (\<lambda>x y. if inside img (x + l) (y + t) then pix img (x + l) (y + t) else Zero)\<rparr>)"

text \<open>\<^verbatim>\<open>Image.new("RGB", (w, h), bg)\<close>.\<close>

definition pil_new :: "int \<times> int \<Rightarrow> string \<Rightarrow> image" where
  "pil_new sz bg = \<lparr>width = fst sz, height = snd sz, pix = (\<lambda>x y. Canvas bg)\<rparr>"

text \<open>\<^verbatim>\<open>canvas.paste(im, (x0, y0))\<close>, returning the canvas it changed.\<close>

definition pil_paste :: "image \<Rightarrow> image \<Rightarrow> int \<times> int \<Rightarrow> image" where
  "pil_paste canvas im pos =
     canvas\<lparr>pix := (\<lambda>x y. if inside im (x - fst pos) (y - snd pos)
                            then pix im (x - fst pos) (y - snd pos) else pix canvas x y)\<rparr>"

subsection \<open>resize\_image\<close>

definition resize_image :: "image \<Rightarrow> int \<Rightarrow> int \<Rightarrow> string \<Rightarrow> py_error + image" where
  "resize_image img target_w target_h scale_mode =
     (if scale_mode = ''stretch'' then pil_resize img (target_w, target_h)
      else
        let iw = width img; ih = height img in
        if iw = 0 \<or> ih = 0 then Inr img
        else if scale_mode = ''fit'' then
          (case true_div target_w iw of Inl e \<Rightarrow> Inl e | Inr rw \<Rightarrow>
           case true_div target_h ih of Inl e \<Rightarrow> Inl e | Inr rh \<Rightarrow>
             let ratio = min rw rh;
                 nw = int_of_float (int_mul_float iw ratio);
                 nh = int_of_float (int_mul_float ih ratio)
             in pil_resize img (nw, nh))
        else if scale_mode = ''fill'' then
          (case true_div target_w iw of Inl e \<Rightarrow> Inl e | Inr rw \<Rightarrow>
           case true_div target_h ih of Inl e \<Rightarrow> Inl e | Inr rh \<Rightarrow>
             let ratio = max rw rh;
                 nw = int_of_float (int_mul_float iw ratio);
                 nh = int_of_float (int_mul_float ih ratio)
             in case pil_resize img (nw, nh) of Inl e \<Rightarrow> Inl e | Inr img2 \<Rightarrow>
                  let left = (nw - target_w) div 2;
                      top = (nh - target_h) div 2
                  in Inr (pil_crop img2 (left, top, left + target_w, top + target_h)))
        else Inr img)"

subsection \<open>Monitors and the frame drawn on one of them\<close>

record monitor =
  mon_left :: int
  mon_top :: int
  mon_width :: nat
  mon_height :: nat

text \<open>
  The body of the loop of \<^verbatim>\<open>show_current_image_on_all\<close>: the image handed to
  \<^verbatim>\<open>ImageTk.PhotoImage\<close> for one monitor.
\<close>

definition render_frame :: "image \<Rightarrow> monitor \<Rightarrow> string \<Rightarrow> string \<Rightarrow> py_error + image" where
  "render_frame base_img mon scale_mode bg =
     (let W = int (mon_width mon); H = int (mon_height mon) in
      if scale_mode = ''fit'' then
        (case resize_image base_img W H ''fit'' of Inl e \<Rightarrow> Inl e | Inr resized \<Rightarrow>
           let canvas = pil_new (W, H) bg;
               x = (W - width resized) div 2;
               y = (H - height resized) div 2
           in Inr (pil_paste canvas resized (x, y)))
      else resize_image base_img W H scale_mode)"

section \<open>Strings, numbers typed in the form, paths\<close>

text \<open>
  A \<open>char\<close> stands for a code point below 256. \<^verbatim>\<open>str.strip()\<close> removes the white
  space of that range; \<^verbatim>\<open>int(str)\<close> skips the same characters except the four
  separators 28 to 31, which it refuses like any other character.
\<close>

definition py_isspace :: "char \<Rightarrow> bool" where
  "py_isspace c = ((of_char c :: nat) \<in> set [9, 10, 11, 12, 13, 28, 29, 30, 31, 32, 133, 160])"

definition py_strip :: "string \<Rightarrow> string" where
  "py_strip s = rev (dropWhile py_isspace (rev (dropWhile py_isspace s)))"

definition int_isspace :: "char \<Rightarrow> bool" where
  "int_isspace c = ((of_char c :: nat) \<in> set [9, 10, 11, 12, 13, 32, 133, 160])"

definition is_digit :: "char \<Rightarrow> bool" where
  "is_digit c = (48 \<le> (of_char c :: nat) \<and> (of_char c :: nat) \<le> 57)"

text \<open>Decimal digits, with single underscores allowed between two digits.\<close>

fun digits_ok :: "string \<Rightarrow> bool" where
  "digits_ok [] = False"
| "digits_ok [c] = is_digit c"
| "digits_ok (c # d # cs) =
     (is_digit c \<and> (if d = CHR ''_'' then digits_ok cs else digits_ok (d # cs)))"

definition digits_value :: "string \<Rightarrow> int" where
  "digits_value s = foldl (\<lambda>a c. 10 * a + (int (of_char c) - 48)) 0 (filter is_digit s)"

text \<open>
  \<^verbatim>\<open>int(s)\<close> for a string: \<open>None\<close> stands for ValueError, which both callers catch.
  CPython refuses more than 4300 digits.
\<close>

definition py_int :: "string \<Rightarrow> int option" where
  "py_int s =
     (let t = rev (dropWhile int_isspace (rev (dropWhile int_isspace s)));
          neg = (t \<noteq> [] \<and> hd t = CHR ''-'');
          body = (if t \<noteq> [] \<and> (hd t = CHR ''-'' \<or> hd t = CHR ''+'') then tl t else t)
      in if digits_ok body \<and> length (filter is_digit body) \<le> 4300
         then Some (if neg then - digits_value body else digits_value body)
         else None)"

text \<open>
  \<^verbatim>\<open>str.lower()\<close>: only the ASCII letters matter where the result is compared with the
  entries of \<^verbatim>\<open>SUPPORTED_EXTS\<close>.
\<close>

definition py_lower :: "string \<Rightarrow> string" where
  "py_lower s =
     map (\<lambda>c. if 65 \<le> (of_char c :: nat) \<and> (of_char c :: nat) \<le> 90
               then char_of ((of_char c :: nat) + 32) else c) s"

definition SUPPORTED_EXTS :: "string list" where
  "SUPPORTED_EXTS = [''.png'', ''.jpg'', ''.jpeg'', ''.bmp'', ''.gif'', ''.tiff'', ''.webp'']"

text \<open>\<^verbatim>\<open>p.rfind(c)\<close>: the last index of \<open>c\<close>, or \<open>-1\<close>.\<close>

definition rfind :: "char \<Rightarrow> string \<Rightarrow> int" where
  "rfind c p =
     (case filter (\<lambda>i. p ! i = c) (rev [0..<length p]) of [] \<Rightarrow> - 1 | i # _ \<Rightarrow> int i)"

text \<open>
  \<^verbatim>\<open>os.path.splitext(p)[1]\<close>, after \<^verbatim>\<open>genericpath._splitext\<close>: the extension starts at the
  last dot, when that dot comes after the last separator and after a character of the file
  name that is not a dot.
\<close>

definition splitext_ext :: "char \<Rightarrow> char option \<Rightarrow> string \<Rightarrow> string" where
  "splitext_ext sep altsep p =
     (let sepIndex = (case altsep of None \<Rightarrow> rfind sep p
                      | Some a \<Rightarrow> max (rfind sep p) (rfind a p));
          dotIndex = rfind (CHR ''.'') p
      in if sepIndex < dotIndex
            \<and> list_ex (\<lambda>i. p ! nat i \<noteq> CHR ''.'') [sepIndex + 1 .. dotIndex - 1]
         then drop (nat dotIndex) p else [])"

text \<open>\<^verbatim>\<open>random.shuffle\<close>: Fisher-Yates from the last index down; \<open>rnd i\<close> is the draw for \<open>i\<close>.\<close>

fun shuffle_from :: "(nat \<Rightarrow> nat) \<Rightarrow> nat \<Rightarrow> 'a list \<Rightarrow> 'a list" where
  "shuffle_from rnd 0 xs = xs"
| "shuffle_from rnd (Suc k) xs =
     (let i = Suc k; j = rnd i mod (i + 1)
      in shuffle_from rnd k (xs[i := xs ! j, j := xs ! i]))"

definition py_shuffle :: "(nat \<Rightarrow> nat) \<Rightarrow> 'a list \<Rightarrow> 'a list" where
  "py_shuffle rnd xs = shuffle_from rnd (length xs - 1) xs"

section \<open>The platform\<close>

text \<open>
  What the program asks of the operating system, the clock and the random generator: an
  argument of every operation that asks.
\<close>

record env =
  os_isfile :: "string \<Rightarrow> bool"
  os_isdir :: "string \<Rightarrow> bool"
  os_listdir :: "string \<Rightarrow> string list"
  os_join :: "string \<Rightarrow> string \<Rightarrow> string"
  os_sep :: char
  os_altsep :: "char option"
  get_all_monitors :: "monitor list"
  open_image_safe :: "string \<Rightarrow> image option"
  winfo_pointer :: "nat \<Rightarrow> (int \<times> int) option"
  time_now :: pyfloat
  get_idle_seconds :: pyfloat
  randbelow :: "nat \<Rightarrow> nat"

definition list_images_in_folder :: "env \<Rightarrow> string \<Rightarrow> string list" where
  "list_images_in_folder e folder =
     (if \<not> os_isdir e folder then []
      else map (os_join e folder)
             (filter (\<lambda>name. os_isfile e (os_join e folder name)
                        \<and> py_lower (splitext_ext (os_sep e) (os_altsep e) name) \<in> set SUPPORTED_EXTS)
                (os_listdir e folder)))"

section \<open>The application\<close>

record config =
  cfg_mode :: string
  image_path :: string
  timeout_seconds :: int
  slideshow_interval :: int
  scale_mode :: string
  background :: string
  shuffle :: bool
  mouse_move_exit_pixels :: int
  allow_blank_single :: bool
  clock_overlay :: bool
  start_in_tray :: bool

text \<open>The widgets of the settings window that activation reads.\<close>

record form =
  mode_var :: string
  path_entry :: string
  timeout_entry :: string
  slide_entry :: string
  scale_var :: string
  bg_preview :: string
  shuffle_var :: bool
  allow_blank_var :: bool
  clock_overlay_var :: bool

datatype event_kind = KeyPress | ButtonPress | Motion

datatype handler = ExitScreensaver | OnMouseMotion

datatype callback = CheckIdle | NextSlide | UpdateClockOverlay

datatype root_state = RootNormal | RootIconic | RootWithdrawn

text \<open>The three error dialogs of activation: a number that does not parse, no valid image
  file in single mode, no image in the folder.\<close>

datatype notice = BadNumber | NoValidImage | NoImageInFolder

record window =
  win_id :: nat
  win_geometry :: monitor
  win_bg :: string
  win_cursor :: string
  win_topmost :: bool
  win_bindings :: "event_kind \<rightharpoonup> handler"

record label =
  lbl_image :: "image option"
  lbl_text :: string
  lbl_bg :: string

text \<open>
  The fields of \<^verbatim>\<open>ScreenSaverApp\<close>, then the state of Tk that the program drives: the
  settings window, the timers waiting in \<^verbatim>\<open>after\<close>, the dialogs shown so far.
\<close>

record app =
  config :: config
  form :: form
  saver_active :: bool
  background_only :: bool
  saver_windows :: "window list"
  saver_labels :: "(label \<times> monitor) list"
  current_images :: "string option list"
  slideshow_index :: nat
  slideshow_job :: "nat option"
  idle_check_job :: "nat option"
  clock_job :: "nat option"
  activated_mouse_positions :: "nat \<rightharpoonup> (int \<times> int) option"
  activated_at :: pyfloat
  tray :: bool
  root_state :: root_state
  root_bindings :: "event_kind \<rightharpoonup> handler"
  pending :: "(nat \<times> int \<times> callback) list"
  next_id :: nat
  notices :: "notice list"

subsection \<open>Timers\<close>

definition tk_after :: "int \<Rightarrow> callback \<Rightarrow> app \<Rightarrow> nat \<times> app" where
  "tk_after ms cb s =
     (next_id s, s\<lparr>pending := pending s @ [(next_id s, ms, cb)], next_id := Suc (next_id s)\<rparr>)"

definition after_cancel :: "nat \<Rightarrow> app \<Rightarrow> app" where
  "after_cancel j s = s\<lparr>pending := filter (\<lambda>t. fst t \<noteq> j) (pending s)\<rparr>"

definition schedule_idle_check :: "app \<Rightarrow> app" where
  "schedule_idle_check s =
     (let s1 = (case idle_check_job s of Some j \<Rightarrow> after_cancel j s | None \<Rightarrow> s);
          (j, s2) = tk_after 1000 CheckIdle s1
      in s2\<lparr>idle_check_job := Some j\<rparr>)"

definition schedule_slideshow :: "app \<Rightarrow> app" where
  "schedule_slideshow s =
     (let s1 = (case slideshow_job s of Some j \<Rightarrow> after_cancel j s | None \<Rightarrow> s);
          interval_ms = max 1 (slideshow_interval (config s1)) * 1000;
          (j, s2) = tk_after interval_ms NextSlide s1
      in s2\<lparr>slideshow_job := Some j\<rparr>)"

definition schedule_clock_overlay :: "app \<Rightarrow> app" where
  "schedule_clock_overlay s =
     (let s1 = (case clock_job s of Some j \<Rightarrow> after_cancel j s | None \<Rightarrow> s);
          (j, s2) = tk_after 1000 UpdateClockOverlay s1
      in s2\<lparr>clock_job := Some j\<rparr>)"

subsection \<open>Drawing the current image\<close>

definition clear_label :: "string \<Rightarrow> label \<times> monitor \<Rightarrow> label \<times> monitor" where
  "clear_label bg lm = ((fst lm)\<lparr>lbl_image := None, lbl_text := [], lbl_bg := bg\<rparr>, snd lm)"

text \<open>
  The loop over the labels. An exception (nothing in \<^verbatim>\<open>show_current_image_on_all\<close>
  catches one) leaves the labels already drawn as they are and the others untouched.
\<close>

fun render_labels ::
  "image \<Rightarrow> string \<Rightarrow> string \<Rightarrow> (label \<times> monitor) list \<Rightarrow> py_error option \<times> (label \<times> monitor) list"
where
  "render_labels base_img sm bg [] = (None, [])"
| "render_labels base_img sm bg ((lbl, mon) # rest) =
     (case render_frame base_img mon sm bg of
        Inl e \<Rightarrow> (Some e, (lbl, mon) # rest)
      | Inr final \<Rightarrow>
          (case render_labels base_img sm bg rest of
             (r, rest') \<Rightarrow> (r, (lbl\<lparr>lbl_image := Some final, lbl_text := [], lbl_bg := bg\<rparr>, mon) # rest')))"

definition show_current_image_on_all :: "env \<Rightarrow> app \<Rightarrow> py_error option \<times> app" where
  "show_current_image_on_all e s =
     (if \<not> saver_active s \<or> current_images s = [] then (None, s)
      else if length (current_images s) \<le> slideshow_index s then (Some IndexError, s)
      else
        let path = current_images s ! slideshow_index s;
            bg = background (config s);
            sm = scale_mode (config s);
            blank = s\<lparr>saver_labels := map (clear_label bg) (saver_labels s)\<rparr>
        in if background_only s then (None, blank)
           else (case path of None \<Rightarrow> (None, blank)
                 | Some p \<Rightarrow>
                     (case open_image_safe e p of None \<Rightarrow> (None, blank)
                      | Some base_img \<Rightarrow>
                          (case render_labels base_img sm bg (saver_labels s) of
                             (r, ls) \<Rightarrow> (r, s\<lparr>saver_labels := ls\<rparr>)))))"

subsection \<open>Leaving the screen saver\<close>

definition exit_screensaver :: "app \<Rightarrow> app" where
  "exit_screensaver s =
     (if \<not> saver_active s then s
      else
        let s1 = (case slideshow_job s of Some j \<Rightarrow> (after_cancel j s)\<lparr>slideshow_job := None\<rparr>
                  | None \<Rightarrow> s);
            s2 = (case clock_job s1 of Some j \<Rightarrow> (after_cancel j s1)\<lparr>clock_job := None\<rparr>
                  | None \<Rightarrow> s1);
            s3 = s2\<lparr>saver_windows := [], saver_labels := [], saver_active := False\<rparr>
        in if \<not> tray s3 \<and> root_state s3 \<noteq> RootNormal then s3\<lparr>root_state := RootNormal\<rparr>
           else s3)"

subsection \<open>Activation\<close>

definition bind :: "event_kind \<Rightarrow> handler \<Rightarrow> window \<Rightarrow> window" where
  "bind k h w = w\<lparr>win_bindings := (win_bindings w)(k \<mapsto> h)\<rparr>"

text \<open>
  One round of the loop over the monitors: a borderless top-most window with its handlers
  and its label, and the pointer position recorded for it (\<open>None\<close> when the query fails).
  \<^verbatim>\<open><Key>\<close> and \<^verbatim>\<open><Any-KeyPress>\<close> are the same kind of event.
\<close>

definition create_window :: "env \<Rightarrow> app \<Rightarrow> monitor \<Rightarrow> app" where
  "create_window e s mon =
     (let bg = background (config s);
          win0 = \<lparr>win_id = next_id s, win_geometry = mon, win_bg = bg, win_cursor = ''none'',
                  win_topmost = True, win_bindings = Map.empty\<rparr>;
          win1 = bind Motion OnMouseMotion (bind ButtonPress ExitScreensaver
                   (bind KeyPress ExitScreensaver (bind KeyPress ExitScreensaver win0)));
          win = bind Motion OnMouseMotion (bind ButtonPress ExitScreensaver
                   (bind KeyPress ExitScreensaver win1));
          lbl = \<lparr>lbl_image = None, lbl_text = [], lbl_bg = bg\<rparr>
      in s\<lparr>activated_mouse_positions :=
             (activated_mouse_positions s)(win_id win \<mapsto> winfo_pointer e (length (saver_windows s))),
           saver_windows := saver_windows s @ [win],
           saver_labels := saver_labels s @ [(lbl, mon)],
           next_id := Suc (next_id s)\<rparr>)"

text \<open>Lines 396 to 464: what activation does once the image list is resolved.\<close>

definition start_session :: "env \<Rightarrow> bool \<Rightarrow> string option list \<Rightarrow> app \<Rightarrow> py_error option \<times> app" where
  "start_session e preview images s =
     (let s1 = s\<lparr>current_images := images, slideshow_index := 0\<rparr>;
          s2 = (if \<not> preview
                then s1\<lparr>root_state := (if tray s1 then RootWithdrawn else RootIconic)\<rparr>
                else s1);
          s3 = s2\<lparr>saver_active := True, saver_windows := [], saver_labels := [],
                  activated_at := time_now e, activated_mouse_positions := Map.empty\<rparr>;
          s4 = foldl (create_window e) s3 (get_all_monitors e)
      in case show_current_image_on_all e s4 of
           (Some err, s5) \<Rightarrow> (Some err, s5)
         | (None, s5) \<Rightarrow>
             (None,
              if \<not> background_only s5 \<and> 1 < length (current_images s5) then schedule_slideshow s5
              else if background_only s5 \<and> clock_overlay (config s5) then schedule_clock_overlay s5
              else s5))"

definition activate_screensaver :: "env \<Rightarrow> bool \<Rightarrow> app \<Rightarrow> py_error option \<times> app" where
  "activate_screensaver e preview s =
     (if saver_active s then (None, s)
      else
        let s1 = s\<lparr>root_bindings := (root_bindings s)(KeyPress \<mapsto> ExitScreensaver)\<rparr>;
            f = form s1
        in case py_int (timeout_entry f) of
             None \<Rightarrow> (None, s1\<lparr>notices := notices s1 @ [BadNumber]\<rparr>)
           | Some t \<Rightarrow>
          (case py_int (slide_entry f) of
             None \<Rightarrow> (None, s1\<lparr>notices := notices s1 @ [BadNumber]\<rparr>)
           | Some i \<Rightarrow>
             let cfg = (config s1)\<lparr>cfg_mode := mode_var f, image_path := py_strip (path_entry f),
                          timeout_seconds := t, slideshow_interval := i,
                          scale_mode := scale_var f, background := bg_preview f,
                          shuffle := shuffle_var f, allow_blank_single := allow_blank_var f,
                          clock_overlay := clock_overlay_var f\<rparr>;
                 s2 = s1\<lparr>config := cfg\<rparr>;
                 mode = cfg_mode cfg;
                 src = image_path cfg;
                 s3 = s2\<lparr>background_only := False\<rparr>
             in if mode = ''single'' then
                  (if src \<noteq> [] \<and> os_isfile e src then start_session e preview [Some src] s3
                   else if allow_blank_single cfg
                   then start_session e preview [None] (s3\<lparr>background_only := True\<rparr>)
                   else (None, s3\<lparr>notices := notices s3 @ [NoValidImage]\<rparr>))
                else
                  let files = list_images_in_folder e src in
                  if files = [] then (None, s3\<lparr>notices := notices s3 @ [NoImageInFolder]\<rparr>)
                  else start_session e preview
                         (map Some (if shuffle cfg then py_shuffle (randbelow e) files else files)) s3))"

subsection \<open>Timers firing\<close>

definition check_idle :: "env \<Rightarrow> app \<Rightarrow> py_error option \<times> app" where
  "check_idle e s =
     (let r = (if \<not> saver_active s then
                 let idle = get_idle_seconds e; timeout = timeout_seconds (config s)
                 in if 0 < timeout \<and> of_int timeout \<le> idle
                    then activate_screensaver e False s else (None, s)
               else (None, s))
      in (fst r, schedule_idle_check (snd r)))"

definition next_slide :: "env \<Rightarrow> app \<Rightarrow> py_error option \<times> app" where
  "next_slide e s =
     (if \<not> saver_active s then (None, s)
      else if current_images s = [] then (Some ZeroDivisionError, s)
      else
        let s1 = s\<lparr>slideshow_index := (slideshow_index s + 1) mod length (current_images s)\<rparr>
        in case show_current_image_on_all e s1 of
             (Some err, s2) \<Rightarrow> (Some err, s2)
           | (None, s2) \<Rightarrow>
               (None, if 1 < length (current_images s2) then schedule_slideshow s2 else s2))"

subsection \<open>Input\<close>

record event =
  ev_kind :: event_kind
  ev_window :: nat
  x_root :: int
  y_root :: int

definition on_mouse_motion :: "env \<Rightarrow> event \<Rightarrow> app \<Rightarrow> app" where
  "on_mouse_motion e ev s =
     (if \<not> saver_active s then s
      else
        let thr = mouse_move_exit_pixels (config s) in
        if fl (time_now e - activated_at s) < fl (1 / 5) then s
        else
          let win = ev_window ev;
              orig = (case activated_mouse_positions s win of None \<Rightarrow> None | Some v \<Rightarrow> v)
          in case orig of
               None \<Rightarrow> s\<lparr>activated_mouse_positions :=
                           (activated_mouse_positions s)(win \<mapsto> Some (x_root ev, y_root ev))\<rparr>
             | Some (ox, oy) \<Rightarrow>
                 let dx = \<bar>x_root ev - ox\<bar>; dy = \<bar>y_root ev - oy\<bar>
                 in if thr \<le> dx \<or> thr \<le> dy then exit_screensaver s else s)"

text \<open>
  Tk hands an event on a screen-saver window to the handler bound to its kind on that
  window; an event on a window that no longer exists reaches nobody.
\<close>

definition deliver :: "env \<Rightarrow> event \<Rightarrow> app \<Rightarrow> app" where
  "deliver e ev s =
     (case find (\<lambda>w. win_id w = ev_window ev) (saver_windows s) of
        None \<Rightarrow> s
      | Some w \<Rightarrow>
          (case win_bindings w (ev_kind ev) of
             None \<Rightarrow> s
           | Some ExitScreensaver \<Rightarrow> exit_screensaver s
           | Some OnMouseMotion \<Rightarrow> on_mouse_motion e ev s))"

text \<open>
  Tk takes a timer out of its queue when it is due, then calls \<^verbatim>\<open>next_slide\<close>;
  \<open>slide_ticks e n\<close> is \<open>n\<close> firings of the slideshow timer in a row.
\<close>

definition slideshow_due :: "app \<Rightarrow> app" where
  "slideshow_due s =
     (case slideshow_job s of None \<Rightarrow> s
      | Some j \<Rightarrow> s\<lparr>pending := filter (\<lambda>t. fst t \<noteq> j) (pending s)\<rparr>)"

fun slide_ticks :: "env \<Rightarrow> nat \<Rightarrow> app \<Rightarrow> app" where
  "slide_ticks e 0 s = s"
| "slide_ticks e (Suc n) s = slide_ticks e n (snd (next_slide e (slideshow_due s)))"

section \<open>A desktop to run the program on\<close>

text \<open>\<^verbatim>\<open>default_config()\<close>, and the settings form that \<^verbatim>\<open>build_ui\<close> fills from it.\<close>

definition default_config :: config where
  "default_config =
     \<lparr>cfg_mode = ''single'', image_path = [], timeout_seconds = 300, slideshow_interval = 10,
      scale_mode = ''fit'', background = ''#000000'', shuffle = True,
      mouse_move_exit_pixels = 10, allow_blank_single = True, clock_overlay = False,
      start_in_tray = False\<rparr>"

definition default_form :: form where
  "default_form =
     \<lparr>mode_var = ''single'', path_entry = [], timeout_entry = ''300'', slide_entry = ''10'',
      scale_var = ''fit'', bg_preview = ''#000000'', shuffle_var = True,
      allow_blank_var = True, clock_overlay_var = False\<rparr>"

text \<open>
  \<^verbatim>\<open>ScreenSaverApp.__init__\<close> when no configuration file exists; \<open>tr\<close> tells whether the
  tray icon could be set up.
\<close>

definition fresh_app :: "bool \<Rightarrow> app" where
  "fresh_app tr =
     schedule_idle_check
       \<lparr>config = default_config, form = default_form, saver_active = False,
        background_only = False, saver_windows = [], saver_labels = [], current_images = [],
        slideshow_index = 0, slideshow_job = None, idle_check_job = None, clock_job = None,
        activated_mouse_positions = Map.empty, activated_at = 0, tray = tr,
        root_state = RootNormal, root_bindings = Map.empty, pending = [], next_id = 0,
        notices = []\<rparr>"

text \<open>
  A laptop with one 1366 by 768 screen, a folder \<^verbatim>\<open>pics\<close> holding three pictures and a
  text file, and a five megapixel photograph behind every picture file.
\<close>

definition laptop_screen :: monitor where
  "laptop_screen = \<lparr>mon_left = 0, mon_top = 0, mon_width = 1366, mon_height = 768\<rparr>"

definition laptop :: env where
  "laptop =
     \<lparr>os_isfile = (\<lambda>p. p \<in> set [''pics/a.png'', ''pics/notes.txt'', ''pics/b.JPG'',
                                   ''pics/c.webp'']),
      os_isdir = (\<lambda>p. p = ''pics''),
      os_listdir = (\<lambda>p. if p = ''pics'' then [''a.png'', ''notes.txt'', ''b.JPG'', ''c.webp'']
                         else []),
      os_join = (\<lambda>d n. d @ ''/'' @ n),
      os_sep = CHR ''/'',
      os_altsep = None,
      get_all_monitors = [laptop_screen],
      open_image_safe = (\<lambda>p. Some (picture 2592 1944)),
      winfo_pointer = (\<lambda>k. Some (100, 100)),
      time_now = 1000,
      get_idle_seconds = 0,
      randbelow = (\<lambda>i. 0)\<rparr>"

text \<open>The form after the user chose the folder, without shuffling.\<close>

definition folder_form :: form where
  "folder_form = default_form\<lparr>mode_var := ''folder'', path_entry := ''pics'', shuffle_var := False\<rparr>"

definition folder_app :: app where
  "folder_app = (fresh_app False)\<lparr>form := folder_form\<rparr>"

text \<open>The slideshow over that folder, started with the preview button.\<close>

definition folder_show :: app where
  "folder_show = snd (activate_screensaver laptop True folder_app)"

text \<open>
  The same desktop where the second picture of the folder is a strip of 3000 by 1 pixels.
\<close>

definition laptop_strip :: env where
  "laptop_strip =
     laptop\<lparr>open_image_safe :=
              (\<lambda>p. if p = ''pics/b.JPG'' then Some (picture 3000 1)
                    else Some (picture 2592 1944))\<rparr>"

text \<open>The same desktop one second later, and with the user away for five minutes.\<close>

definition laptop_later :: env where
  "laptop_later = laptop\<lparr>time_now := 1001\<rparr>"

definition laptop_unattended :: env where
  "laptop_unattended = laptop\<lparr>get_idle_seconds := 300\<rparr>"

text \<open>An application whose timeout is switched off.\<close>

definition no_timeout_app :: app where
  "no_timeout_app = (fresh_app False)\<lparr>config := default_config\<lparr>timeout_seconds := 0\<rparr>\<rparr>"

text \<open>
  The form with a timeout of five seconds typed in, no picture chosen and the permission
  to run on the bare background withdrawn.
\<close>

definition strict_form :: form where
  "strict_form = default_form\<lparr>timeout_entry := ''5'', allow_blank_var := False\<rparr>"

text \<open>
  The application after a session on the bare background has been left, with that form.
\<close>

definition strict_app :: app where
  "strict_app =
     (exit_screensaver (snd (activate_screensaver laptop True (fresh_app False))))
       \<lparr>form := strict_form\<rparr>"

text \<open>The application after the slideshow over the folder has been left.\<close>

definition folder_again :: app where
  "folder_again = exit_screensaver folder_show"

text \<open>Pointer motion and a key press on the window of the slideshow.\<close>

definition motion_to :: "int \<Rightarrow> int \<Rightarrow> event" where
  "motion_to x y = \<lparr>ev_kind = Motion, ev_window = 1, x_root = x, y_root = y\<rparr>"

definition press :: "event_kind \<Rightarrow> event" where
  "press k = \<lparr>ev_kind = k, ev_window = 1, x_root = 100, y_root = 100\<rparr>"

section \<open>Auxiliary facts\<close>

lemma pil_resize_error: "pil_resize img sz = Inl e \<Longrightarrow> e = ValueError"
  by (simp add: pil_resize_def split: if_splits)

lemma resize_image_error: "resize_image img W H m = Inl e \<Longrightarrow> e = ValueError"
  by (auto simp: resize_image_def true_div_def Let_def pil_resize_error
      split: if_splits sum.splits)

lemma render_frame_error: "render_frame img mon m bg = Inl e \<Longrightarrow> e = ValueError"
  by (auto simp: render_frame_def Let_def resize_image_error split: if_splits sum.splits)

text \<open>
  Whenever a frame is drawn in one of the three modes, it has the size of the monitor
  (in fill mode for a source with pixels, which is all a decoder returns).
\<close>

lemma render_frame_size_if_drawn:
  assumes "render_frame img mon m bg = Inr buf"
    and "m = ''fit'' \<or> m = ''fill'' \<or> m = ''stretch''"
    and "m = ''fill'' \<longrightarrow> width img \<noteq> 0 \<and> height img \<noteq> 0"
  shows "size_of buf = (int (mon_width mon), int (mon_height mon))"
  using assms
  by (auto simp: render_frame_def resize_image_def true_div_def Let_def size_of_def
      pil_resize_def pil_crop_def pil_paste_def pil_new_def split: if_splits sum.splits)

lemma schedule_idle_check_active [simp]:
  "saver_active (schedule_idle_check s) = saver_active s"
  by (simp add: schedule_idle_check_def tk_after_def after_cancel_def Let_def split: option.splits)

lemma exit_screensaver_idle [simp]: "\<not> saver_active (exit_screensaver s)"
  by (simp add: exit_screensaver_def after_cancel_def Let_def split: option.splits)

lemma show_only_labels:
  "snd (show_current_image_on_all e s) =
     s\<lparr>saver_labels := saver_labels (snd (show_current_image_on_all e s))\<rparr>"
  by (simp add: show_current_image_on_all_def Let_def split: option.splits prod.splits)

lemma schedule_slideshow_fields:
  "saver_active (schedule_slideshow s) = saver_active s
   \<and> saver_windows (schedule_slideshow s) = saver_windows s
   \<and> saver_labels (schedule_slideshow s) = saver_labels s
   \<and> current_images (schedule_slideshow s) = current_images s
   \<and> slideshow_index (schedule_slideshow s) = slideshow_index s
   \<and> activated_at (schedule_slideshow s) = activated_at s
   \<and> slideshow_job (schedule_slideshow s) = Some (next_id s)
   \<and> pending (schedule_slideshow s) =
       (case slideshow_job s of None \<Rightarrow> pending s
        | Some j \<Rightarrow> filter (\<lambda>t. fst t \<noteq> j) (pending s))
       @ [(next_id s, max 1 (slideshow_interval (config s)) * 1000, NextSlide)]"
  by (simp add: schedule_slideshow_def tk_after_def after_cancel_def Let_def split: option.splits)

lemma schedule_clock_overlay_fields:
  "saver_active (schedule_clock_overlay s) = saver_active s
   \<and> saver_windows (schedule_clock_overlay s) = saver_windows s
   \<and> current_images (schedule_clock_overlay s) = current_images s
   \<and> slideshow_index (schedule_clock_overlay s) = slideshow_index s
   \<and> activated_at (schedule_clock_overlay s) = activated_at s"
  by (simp add: schedule_clock_overlay_def tk_after_def after_cancel_def Let_def split: option.splits)

lemma create_windows_fields:
  "saver_active (foldl (create_window e) s ms) = saver_active s
   \<and> current_images (foldl (create_window e) s ms) = current_images s
   \<and> slideshow_index (foldl (create_window e) s ms) = slideshow_index s
   \<and> activated_at (foldl (create_window e) s ms) = activated_at s
   \<and> background_only (foldl (create_window e) s ms) = background_only s
   \<and> config (foldl (create_window e) s ms) = config s"
  by (induction ms arbitrary: s) (simp_all add: create_window_def Let_def)

lemma create_window_windows:
  "\<exists>w. saver_windows (create_window e s mon) = saver_windows s @ [w]
       \<and> win_bindings w KeyPress = Some ExitScreensaver
       \<and> win_bindings w ButtonPress = Some ExitScreensaver
       \<and> win_bindings w Motion = Some OnMouseMotion"
  by (simp add: create_window_def Let_def bind_def)

lemma create_windows_bindings:
  assumes "\<forall>w \<in> set (saver_windows s).
             win_bindings w KeyPress = Some ExitScreensaver
             \<and> win_bindings w ButtonPress = Some ExitScreensaver
             \<and> win_bindings w Motion = Some OnMouseMotion"
  shows "\<forall>w \<in> set (saver_windows (foldl (create_window e) s ms)).
             win_bindings w KeyPress = Some ExitScreensaver
             \<and> win_bindings w ButtonPress = Some ExitScreensaver
             \<and> win_bindings w Motion = Some OnMouseMotion"
  using assms
proof (induction ms arbitrary: s)
  case Nil
  then show ?case by simp
next
  case (Cons m ms)
  obtain w where w: "saver_windows (create_window e s m) = saver_windows s @ [w]"
    "win_bindings w KeyPress = Some ExitScreensaver"
    "win_bindings w ButtonPress = Some ExitScreensaver"
    "win_bindings w Motion = Some OnMouseMotion"
    using create_window_windows by blast
  have "\<forall>w \<in> set (saver_windows (create_window e s m)).
             win_bindings w KeyPress = Some ExitScreensaver
             \<and> win_bindings w ButtonPress = Some ExitScreensaver
             \<and> win_bindings w Motion = Some OnMouseMotion"
    using Cons.prems w by auto
  from Cons.IH [OF this] show ?case by simp
qed

lemma start_session_fields:
  assumes "start_session e preview images s = (r, s')"
  shows "saver_active s' \<and> current_images s' = images \<and> slideshow_index s' = 0
         \<and> activated_at s' = time_now e
         \<and> (\<forall>w \<in> set (saver_windows s').
               win_bindings w KeyPress = Some ExitScreensaver
               \<and> win_bindings w ButtonPress = Some ExitScreensaver
               \<and> win_bindings w Motion = Some OnMouseMotion)"
proof -
  define s3 where "s3 = (if \<not> preview
        then s\<lparr>current_images := images, slideshow_index := 0,
               root_state := (if tray s then RootWithdrawn else RootIconic)\<rparr>
        else s\<lparr>current_images := images, slideshow_index := 0\<rparr>)
        \<lparr>saver_active := True, saver_windows := [], saver_labels := [],
         activated_at := time_now e, activated_mouse_positions := Map.empty\<rparr>"
  define s4 where "s4 = foldl (create_window e) s3 (get_all_monitors e)"
  define s5 where "s5 = snd (show_current_image_on_all e s4)"
  have s5: "s5 = s4\<lparr>saver_labels := saver_labels s5\<rparr>"
    unfolding s5_def by (rule show_only_labels)
  have f4: "saver_active s4 \<and> current_images s4 = images \<and> slideshow_index s4 = 0
            \<and> activated_at s4 = time_now e"
    unfolding s4_def using create_windows_fields [of e s3 "get_all_monitors e"]
    by (simp add: s3_def)
  have b4: "\<forall>w \<in> set (saver_windows s4).
               win_bindings w KeyPress = Some ExitScreensaver
               \<and> win_bindings w ButtonPress = Some ExitScreensaver
               \<and> win_bindings w Motion = Some OnMouseMotion"
    unfolding s4_def by (rule create_windows_bindings) (simp add: s3_def)
  have f5: "saver_active s5 \<and> current_images s5 = images \<and> slideshow_index s5 = 0
            \<and> activated_at s5 = time_now e \<and> saver_windows s5 = saver_windows s4"
    using f4 by (subst (1 2 3 4 5) s5) simp
  have unfold: "start_session e preview images s =
          (case show_current_image_on_all e s4 of
             (Some err, s5) \<Rightarrow> (Some err, s5)
           | (None, s5) \<Rightarrow>
               (None,
                if \<not> background_only s5 \<and> 1 < length (current_images s5) then schedule_slideshow s5
                else if background_only s5 \<and> clock_overlay (config s5) then schedule_clock_overlay s5
                else s5))"
    by (simp add: start_session_def s4_def s3_def Let_def)
  have "s' = s5 \<or> s' = schedule_slideshow s5 \<or> s' = schedule_clock_overlay s5"
    using assms unfolding unfold s5_def
    by (cases "show_current_image_on_all e s4") (auto split: option.splits if_splits)
  then show ?thesis
    using f5 b4 by (auto simp: schedule_slideshow_fields schedule_clock_overlay_fields)
qed

lemma activate_started:
  assumes "\<not> saver_active s0" and "activate_screensaver e preview s0 = (r, s)"
    and "saver_active s"
  shows "\<exists>images s3. start_session e preview images s3 = (r, s)"
  using assms
  by (auto simp: activate_screensaver_def Let_def split: option.splits if_splits)

lemma shuffle_from_length [simp]: "length (shuffle_from rnd k xs) = length xs"
  by (induction k arbitrary: xs) (simp_all add: Let_def)

lemma py_shuffle_empty [simp]: "(py_shuffle rnd xs = []) = (xs = [])"
proof -
  have "length (py_shuffle rnd xs) = length xs"
    by (simp add: py_shuffle_def)
  then show ?thesis by (metis length_0_conv)
qed

lemma activation_images_nonempty:
  assumes "\<not> saver_active s0" and "activate_screensaver e preview s0 = (r, s)"
    and "saver_active s"
  shows "current_images s \<noteq> []"
  using assms
  by (auto simp: activate_screensaver_def Let_def split: option.splits if_splits
      dest!: start_session_fields)

text \<open>
  When drawing the image at the new index returns, \<^verbatim>\<open>next_slide\<close> returns with the new
  index and schedules the next timer exactly when there is more than one image.
\<close>

lemma next_slide_when_drawn:
  assumes "saver_active s" and "current_images s \<noteq> []"
    and "show_current_image_on_all e
           (s\<lparr>slideshow_index := (slideshow_index s + 1) mod length (current_images s)\<rparr>)
         = (None, s2)"
  shows "next_slide e s =
           (None, if 1 < length (current_images s) then schedule_slideshow s2 else s2)"
proof -
  define s1 where "s1 = s\<lparr>slideshow_index := (slideshow_index s + 1) mod length (current_images s)\<rparr>"
  have r: "show_current_image_on_all e s1 = (None, s2)"
    using assms(3) by (simp add: s1_def)
  have "s2 = snd (show_current_image_on_all e s1)"
    by (simp add: r)
  then have s2: "s2 = s1\<lparr>saver_labels := saver_labels s2\<rparr>"
    using show_only_labels [of e s1] by simp
  have ci: "current_images s2 = current_images s"
    by (subst s2) (simp add: s1_def)
  have ns: "next_slide e s =
              (case show_current_image_on_all e s1 of
                 (Some err, s2) \<Rightarrow> (Some err, s2)
               | (None, s2) \<Rightarrow>
                   (None, if 1 < length (current_images s2) then schedule_slideshow s2 else s2))"
    using assms(1,2) by (simp add: next_slide_def Let_def s1_def)
  show ?thesis
    unfolding ns r using ci by simp
qed

subsection \<open>Facts about the desktop\<close>

lemma fresh_app_idle: "\<not> saver_active (fresh_app False)"
  by (simp add: fresh_app_def schedule_idle_check_def tk_after_def Let_def)

lemma folder_show_facts:
  "saver_active folder_show \<and> activated_at folder_show = 1000
   \<and> mouse_move_exit_pixels (config folder_show) = 10
   \<and> activated_mouse_positions folder_show 1 = Some (Some (100, 100))
   \<and> map win_id (saver_windows folder_show) = [1]
   \<and> current_images folder_show = [Some ''pics/a.png'', Some ''pics/b.JPG'', Some ''pics/c.webp'']
   \<and> slideshow_index folder_show = 0"
  by code_simp

lemma settle_times:
  "\<not> fl (time_now laptop_later - 1000) < fl (1 / 5) \<and> fl (time_now laptop - 1000) < fl (1 / 5)"
  by code_simp

section \<open>The image scaler\<close>

text \<open>
  C10. \<^verbatim>\<open>resize_image\<close> never raises ZeroDivisionError, whatever the image, the target
  and the mode; and for a source whose width or height is 0 the modes fit and fill return
  the source itself, so both true divisions are reached with a nonzero divisor only.
\<close>

theorem resize_image_no_zero_division:
  "resize_image img W H m \<noteq> Inl ZeroDivisionError \<and>
   ((width img = 0 \<or> height img = 0) \<and> (m = ''fit'' \<or> m = ''fill'')
      \<longrightarrow> resize_image img W H m = Inr img)"
proof -
  have "resize_image img W H m \<noteq> Inl ZeroDivisionError"
    using resize_image_error [of img W H m ZeroDivisionError] by auto
  then show ?thesis
    by (auto simp: resize_image_def)
qed

theorem resize_image_no_zero_division_witness:
  "resize_image (picture 0 5) 4 4 ''fill'' \<noteq> Inl ZeroDivisionError \<and>
   resize_image (picture 0 5) 4 4 ''fill'' = Inr (picture 0 5)"
  using resize_image_no_zero_division [of "picture 0 5" 4 4 "''fill''"]
  by (simp add: picture_def)

subsection \<open>Fit mode on a thin strip\<close>

text \<open>
  The floats of the mode fit for a strip of 3000 by 1 pixels on a 1366 by 768 screen: the
  ratio is the smaller of 1366 / 3000 and 768 / 1, the scaled width is 1366 and the scaled
  height \<^verbatim>\<open>int(1 * ratio)\<close> is 0.
\<close>

lemma strip_ratio_w: "true_div 1366 3000 = Inr (8202556121317463 / 18014398509481984)"
  by code_simp

lemma strip_ratio_h: "true_div 768 1 = Inr 768"
  by code_simp

lemma strip_scaled_w:
  "int_of_float (int_mul_float 3000 (8202556121317463 / 18014398509481984)) = 1366"
  by code_simp

lemma strip_scaled_h:
  "int_of_float (int_mul_float 1 (8202556121317463 / 18014398509481984)) = 0"
  by code_simp

text \<open>
  C1. On that input \<^verbatim>\<open>resize_image\<close> asks Pillow for a 1366 by 0 image, Pillow raises
  ValueError, nothing catches it, and no buffer of the size of the screen is made.
\<close>

theorem fit_strip_raises:
  "render_frame (picture 3000 1) laptop_screen ''fit'' ''#000000'' = Inl ValueError"
  by (simp add: render_frame_def resize_image_def picture_def laptop_screen_def
      strip_ratio_w strip_ratio_h strip_scaled_w strip_scaled_h pil_resize_def size_of_def
      Let_def)

subsection \<open>Fill mode on a photograph\<close>

text \<open>
  The floats of the mode fill for a 2592 by 1944 photograph on a 1366 by 768 screen:
  the ratio is 1366 / 2592 rounded, and 2592 times that ratio rounds to a float just
  below 1366, which \<^verbatim>\<open>int\<close> truncates to 1365.
\<close>

lemma photo_ratio_w: "true_div 1366 2592 = Inr (2373424803621951 / 4503599627370496)"
  by code_simp
lemma photo_ratio_h: "true_div 768 1944 = Inr (222399981598543 / 562949953421312)"
  by code_simp
lemma photo_scaled_w:
  "int_of_float (int_mul_float 2592 (2373424803621951 / 4503599627370496)) = 1365"
  by code_simp
lemma photo_scaled_h:
  "int_of_float (int_mul_float 1944 (2373424803621951 / 4503599627370496)) = 1024"
  by code_simp

text \<open>
  C5. On that input the scaled image is 1365 pixels wide, one less than the screen, the
  crop box starts at column \<open>-1\<close>, and the leftmost column of the 1366 by 768 result is
  the zero fill of \<^verbatim>\<open>crop\<close> (black, the default background colour), not picture content.
\<close>

theorem fill_leaves_zero_column:
  "\<exists>buf. resize_image (picture 2592 1944) 1366 768 ''fill'' = Inr buf
       \<and> size_of buf = (1366, 768) \<and> pix buf 0 0 = Zero \<and> pix buf 1 0 = Sampled"
  by (simp add: resize_image_def picture_def photo_ratio_w photo_ratio_h photo_scaled_w
      photo_scaled_h pil_crop_def pil_resize_def size_of_def inside_def Let_def)

section \<open>The session\<close>

text \<open>
  C4. \<^verbatim>\<open>exit_screensaver\<close> on an idle application returns the state it was given, and
  \<^verbatim>\<open>activate_screensaver\<close> on an active one returns without an exception and with the
  state it was given.
\<close>

theorem exit_and_activate_idempotent:
  "(\<not> saver_active s \<longrightarrow> exit_screensaver s = s) \<and>
   (saver_active s \<longrightarrow> activate_screensaver e preview s = (None, s))"
  by (simp add: exit_screensaver_def activate_screensaver_def)

theorem exit_and_activate_idempotent_witness:
  "exit_screensaver (fresh_app False) = fresh_app False \<and>
   activate_screensaver laptop False folder_show = (None, folder_show)"
  using exit_and_activate_idempotent [of "fresh_app False"]
    exit_and_activate_idempotent [of folder_show laptop False]
    fresh_app_idle folder_show_facts
  by simp

text \<open>
  C9. The idle check leaves an idle application active only when the configured timeout
  is positive and the idle time has reached it; with a timeout of 0 or less it does nothing
  but schedule the next check, whatever the idle time; and with a positive timeout reached
  while idle it is \<^verbatim>\<open>activate_screensaver(preview=False)\<close> that runs.
\<close>

theorem check_idle_activation:
  "(\<not> saver_active s \<and> saver_active (snd (check_idle e s))
      \<longrightarrow> 0 < timeout_seconds (config s)
          \<and> of_int (timeout_seconds (config s)) \<le> get_idle_seconds e)
   \<and> (timeout_seconds (config s) \<le> 0 \<longrightarrow> check_idle e s = (None, schedule_idle_check s))
   \<and> (\<not> saver_active s \<and> 0 < timeout_seconds (config s)
        \<and> of_int (timeout_seconds (config s)) \<le> get_idle_seconds e
      \<longrightarrow> check_idle e s = (fst (activate_screensaver e False s),
                            schedule_idle_check (snd (activate_screensaver e False s))))"
  by (auto simp: check_idle_def Let_def)

lemma unattended_facts:
  "\<not> saver_active (fresh_app False)
   \<and> saver_active (snd (check_idle laptop_unattended (fresh_app False)))
   \<and> timeout_seconds (config (fresh_app False)) = 300
   \<and> get_idle_seconds laptop_unattended = 300
   \<and> timeout_seconds (config no_timeout_app) = 0"
  by code_simp

theorem check_idle_activation_witness:
  "(0 < timeout_seconds (config (fresh_app False))
    \<and> of_int (timeout_seconds (config (fresh_app False))) \<le> get_idle_seconds laptop_unattended)
   \<and> check_idle laptop_unattended no_timeout_app = (None, schedule_idle_check no_timeout_app)
   \<and> check_idle laptop_unattended (fresh_app False) =
       (fst (activate_screensaver laptop_unattended False (fresh_app False)),
        schedule_idle_check (snd (activate_screensaver laptop_unattended False (fresh_app False))))"
  using check_idle_activation [of "fresh_app False" laptop_unattended]
    check_idle_activation [of no_timeout_app laptop_unattended]
    unattended_facts
  by simp

text \<open>
  C3. A motion event on a window whose origin is recorded, once the settle guard has
  passed, calls \<^verbatim>\<open>exit_screensaver\<close> exactly when the pointer is at least the threshold
  away from the origin along x or along y, and otherwise changes nothing.
\<close>

theorem motion_exit_threshold:
  assumes "saver_active s"
    and "\<not> fl (time_now e - activated_at s) < fl (1 / 5)"
    and "activated_mouse_positions s (ev_window ev) = Some (Some (ox, oy))"
  shows "on_mouse_motion e ev s =
           (if mouse_move_exit_pixels (config s) \<le> \<bar>x_root ev - ox\<bar>
               \<or> mouse_move_exit_pixels (config s) \<le> \<bar>y_root ev - oy\<bar>
            then exit_screensaver s else s)
         \<and> (\<not> saver_active (on_mouse_motion e ev s) \<longleftrightarrow>
              mouse_move_exit_pixels (config s) \<le> \<bar>x_root ev - ox\<bar>
              \<or> mouse_move_exit_pixels (config s) \<le> \<bar>y_root ev - oy\<bar>)"
  using assms by (simp add: on_mouse_motion_def Let_def)

theorem motion_exit_threshold_witness:
  "saver_active (on_mouse_motion laptop_later (motion_to 109 100) folder_show)
   \<and> \<not> saver_active (on_mouse_motion laptop_later (motion_to 110 100) folder_show)
   \<and> on_mouse_motion laptop_later (motion_to 109 100) folder_show = folder_show"
  using motion_exit_threshold [of folder_show laptop_later "motion_to 109 100" 100 100]
    motion_exit_threshold [of folder_show laptop_later "motion_to 110 100" 100 100]
    folder_show_facts settle_times
  by (simp add: motion_to_def)

text \<open>
  C7. In a session that \<^verbatim>\<open>activate_screensaver\<close> has just started, while the clock is
  less than 0.2 seconds past the activation time, a motion event on any of its windows
  changes nothing, and a key press or a button press on any of its windows runs
  \<^verbatim>\<open>exit_screensaver\<close> and leaves the application idle.
\<close>

theorem settle_guard_motion_only:
  assumes "\<not> saver_active s0"
    and "activate_screensaver e preview s0 = (r, s)"
    and "saver_active s"
    and "w \<in> set (saver_windows s)"
    and "ev_window ev = win_id w"
    and "fl (time_now e' - activated_at s) < fl (1 / 5)"
  shows "(ev_kind ev = Motion \<longrightarrow> deliver e' ev s = s)
         \<and> (ev_kind ev = KeyPress \<or> ev_kind ev = ButtonPress
              \<longrightarrow> deliver e' ev s = exit_screensaver s \<and> \<not> saver_active (deliver e' ev s))"
proof -
  obtain images s3 where "start_session e preview images s3 = (r, s)"
    using activate_started [OF assms(1,2,3)] by blast
  then have std: "\<forall>w \<in> set (saver_windows s).
               win_bindings w KeyPress = Some ExitScreensaver
               \<and> win_bindings w ButtonPress = Some ExitScreensaver
               \<and> win_bindings w Motion = Some OnMouseMotion"
    using start_session_fields by blast
  have "find (\<lambda>w. win_id w = ev_window ev) (saver_windows s) \<noteq> None"
    using assms(4,5) by (auto simp: find_None_iff)
  then obtain w' where f: "find (\<lambda>w. win_id w = ev_window ev) (saver_windows s) = Some w'"
    by blast
  then have "w' \<in> set (saver_windows s)"
    by (auto simp: find_Some_iff)
  with std have b: "win_bindings w' KeyPress = Some ExitScreensaver"
    "win_bindings w' ButtonPress = Some ExitScreensaver"
    "win_bindings w' Motion = Some OnMouseMotion"
    by auto
  have m: "on_mouse_motion e' ev s = s"
    using assms(3,6) by (simp add: on_mouse_motion_def Let_def)
  show ?thesis
    using f b m by (auto simp: deliver_def)
qed

theorem settle_guard_motion_only_witness:
  "deliver laptop (motion_to 500 500) folder_show = folder_show
   \<and> \<not> saver_active (deliver laptop (press KeyPress) folder_show)
   \<and> \<not> saver_active (deliver laptop (press ButtonPress) folder_show)"
proof -
  have idle: "\<not> saver_active folder_app"
    using fresh_app_idle by (simp add: folder_app_def)
  have act: "activate_screensaver laptop True folder_app
               = (fst (activate_screensaver laptop True folder_app), folder_show)"
    by (simp add: folder_show_def)
  have on: "saver_active folder_show"
    using folder_show_facts by simp
  obtain w where w: "saver_windows folder_show = [w]" "win_id w = 1"
    using folder_show_facts by (cases "saver_windows folder_show") auto
  then have mem: "w \<in> set (saver_windows folder_show)" by simp
  have early: "fl (time_now laptop - activated_at folder_show) < fl (1 / 5)"
    using folder_show_facts settle_times by simp
  show ?thesis
    using settle_guard_motion_only [OF idle act on mem _ early, of "motion_to 500 500"]
      settle_guard_motion_only [OF idle act on mem _ early, of "press KeyPress"]
      settle_guard_motion_only [OF idle act on mem _ early, of "press ButtonPress"]
      w(2)
    by (simp add: motion_to_def press_def)
qed

text \<open>
  C2, as amended. When the numbers of the form parse and no image set can be resolved
  (single mode with an empty or invalid path and blank runs not allowed, or folder mode
  with an empty listing), activation shows the matching error dialog and returns with
  the application idle: no window, no label and no timer is added, and the image list,
  the index, the recorded pointer positions, the activation time and the settings window
  are as before. What the aborted activation leaves behind is the configuration
  refreshed from the form, the background-only flag reset to false and the key binding
  on the settings window.
\<close>

theorem failed_activation_stays_idle:
  assumes "\<not> saver_active s"
    and "py_int (timeout_entry (form s)) = Some t"
    and "py_int (slide_entry (form s)) = Some i"
    and "(mode_var (form s) = ''single''
           \<and> (py_strip (path_entry (form s)) = [] \<or> \<not> os_isfile e (py_strip (path_entry (form s))))
           \<and> \<not> allow_blank_var (form s))
         \<or> (mode_var (form s) \<noteq> ''single''
           \<and> list_images_in_folder e (py_strip (path_entry (form s))) = [])"
  shows "activate_screensaver e preview s =
           (None,
            s\<lparr>root_bindings := (root_bindings s)(KeyPress \<mapsto> ExitScreensaver),
              config := (config s)\<lparr>cfg_mode := mode_var (form s),
                          image_path := py_strip (path_entry (form s)),
                          timeout_seconds := t, slideshow_interval := i,
                          scale_mode := scale_var (form s), background := bg_preview (form s),
                          shuffle := shuffle_var (form s),
                          allow_blank_single := allow_blank_var (form s),
                          clock_overlay := clock_overlay_var (form s)\<rparr>,
              background_only := False,
              notices := notices s @ [if mode_var (form s) = ''single'' then NoValidImage
                                      else NoImageInFolder]\<rparr>)
         \<and> \<not> saver_active (snd (activate_screensaver e preview s))
         \<and> saver_windows (snd (activate_screensaver e preview s)) = saver_windows s
         \<and> saver_labels (snd (activate_screensaver e preview s)) = saver_labels s
         \<and> pending (snd (activate_screensaver e preview s)) = pending s
         \<and> slideshow_job (snd (activate_screensaver e preview s)) = slideshow_job s
         \<and> clock_job (snd (activate_screensaver e preview s)) = clock_job s
         \<and> current_images (snd (activate_screensaver e preview s)) = current_images s
         \<and> slideshow_index (snd (activate_screensaver e preview s)) = slideshow_index s
         \<and> activated_mouse_positions (snd (activate_screensaver e preview s))
             = activated_mouse_positions s
         \<and> activated_at (snd (activate_screensaver e preview s)) = activated_at s
         \<and> root_state (snd (activate_screensaver e preview s)) = root_state s"
proof -
  have eq: "activate_screensaver e preview s =
           (None,
            s\<lparr>root_bindings := (root_bindings s)(KeyPress \<mapsto> ExitScreensaver),
              config := (config s)\<lparr>cfg_mode := mode_var (form s),
                          image_path := py_strip (path_entry (form s)),
                          timeout_seconds := t, slideshow_interval := i,
                          scale_mode := scale_var (form s), background := bg_preview (form s),
                          shuffle := shuffle_var (form s),
                          allow_blank_single := allow_blank_var (form s),
                          clock_overlay := clock_overlay_var (form s)\<rparr>,
              background_only := False,
              notices := notices s @ [if mode_var (form s) = ''single'' then NoValidImage
                                      else NoImageInFolder]\<rparr>)"
    using assms by (auto simp: activate_screensaver_def Let_def)
  show ?thesis
    using assms(1) by (simp add: eq)
qed

lemma strict_app_facts:
  "\<not> saver_active strict_app \<and> background_only strict_app
   \<and> timeout_seconds (config strict_app) = 300
   \<and> py_int (timeout_entry (form strict_app)) = Some 5
   \<and> py_int (slide_entry (form strict_app)) = Some 10
   \<and> mode_var (form strict_app) = ''single''
   \<and> py_strip (path_entry (form strict_app)) = []
   \<and> \<not> allow_blank_var (form strict_app)
   \<and> notices strict_app = []"
  by code_simp

theorem failed_activation_stays_idle_witness:
  "fst (activate_screensaver laptop True strict_app) = None
   \<and> \<not> saver_active (snd (activate_screensaver laptop True strict_app))
   \<and> saver_windows (snd (activate_screensaver laptop True strict_app)) = saver_windows strict_app
   \<and> pending (snd (activate_screensaver laptop True strict_app)) = pending strict_app
   \<and> notices (snd (activate_screensaver laptop True strict_app)) = [NoValidImage]"
  using failed_activation_stays_idle [of strict_app 5 10 laptop True] strict_app_facts
  by simp

text \<open>
  C2 as stated fails where it says that nothing is left behind: after the failed
  activation the configured timeout is the 5 seconds typed in the form, not the 300 of
  before, and the background-only flag that was set is cleared.
\<close>

theorem failed_activation_counterexample:
  "\<not> saver_active strict_app \<and> background_only strict_app
   \<and> timeout_seconds (config strict_app) = 300
   \<and> notices (snd (activate_screensaver laptop True strict_app)) = [NoValidImage]
   \<and> \<not> saver_active (snd (activate_screensaver laptop True strict_app))
   \<and> \<not> background_only (snd (activate_screensaver laptop True strict_app))
   \<and> timeout_seconds (config (snd (activate_screensaver laptop True strict_app))) = 5"
  by code_simp

text \<open>
  C8. Two activations in folder mode with shuffling off, on the same path and the same
  directory contents, whatever else the two applications and platforms differ in, both
  set the image list to the listing of \<^verbatim>\<open>list_images_in_folder\<close>, which is the directory
  enumeration with some names dropped and none moved.
\<close>

theorem folder_order_repeatable:
  assumes "\<not> saver_active s1" and "\<not> saver_active s2"
    and "py_int (timeout_entry (form s1)) = Some t1" and "py_int (slide_entry (form s1)) = Some i1"
    and "py_int (timeout_entry (form s2)) = Some t2" and "py_int (slide_entry (form s2)) = Some i2"
    and "mode_var (form s1) \<noteq> ''single''" and "mode_var (form s2) \<noteq> ''single''"
    and "\<not> shuffle_var (form s1)" and "\<not> shuffle_var (form s2)"
    and "py_strip (path_entry (form s1)) = d" and "py_strip (path_entry (form s2)) = d"
    and "os_isdir e1 = os_isdir e2" and "os_isfile e1 = os_isfile e2"
    and "os_listdir e1 = os_listdir e2" and "os_join e1 = os_join e2"
    and "os_sep e1 = os_sep e2" and "os_altsep e1 = os_altsep e2"
    and "list_images_in_folder e1 d \<noteq> []"
  shows "current_images (snd (activate_screensaver e1 p1 s1)) = map Some (list_images_in_folder e1 d)
         \<and> current_images (snd (activate_screensaver e2 p2 s2))
             = current_images (snd (activate_screensaver e1 p1 s1))
         \<and> (\<exists>keep. list_images_in_folder e1 d
                     = map (os_join e1 d) (filter keep (os_listdir e1 d)))"
proof -
  have same: "list_images_in_folder e2 d = list_images_in_folder e1 d"
    using assms(13-18) by (simp add: list_images_in_folder_def)
  have "\<exists>s3. activate_screensaver e1 p1 s1
             = start_session e1 p1 (map Some (list_images_in_folder e1 d)) s3"
    using assms by (simp add: activate_screensaver_def Let_def) blast
  then have c1: "current_images (snd (activate_screensaver e1 p1 s1))
                  = map Some (list_images_in_folder e1 d)"
    using start_session_fields by (metis prod.collapse)
  have "\<exists>s3. activate_screensaver e2 p2 s2
             = start_session e2 p2 (map Some (list_images_in_folder e1 d)) s3"
    using assms same by (simp add: activate_screensaver_def Let_def) blast
  then have c2: "current_images (snd (activate_screensaver e2 p2 s2))
                  = map Some (list_images_in_folder e1 d)"
    using start_session_fields by (metis prod.collapse)
  have "list_images_in_folder e1 d
          = map (os_join e1 d)
              (filter (\<lambda>name. os_isfile e1 (os_join e1 d name)
                          \<and> py_lower (splitext_ext (os_sep e1) (os_altsep e1) name)
                              \<in> set SUPPORTED_EXTS)
                 (os_listdir e1 d))"
    using assms(19) by (auto simp: list_images_in_folder_def split: if_splits)
  then have "\<exists>keep. list_images_in_folder e1 d
                     = map (os_join e1 d) (filter keep (os_listdir e1 d))"
    by blast
  with c1 c2 show ?thesis by simp
qed

lemma folder_form_facts:
  "\<not> saver_active folder_app \<and> \<not> saver_active folder_again
   \<and> py_int (timeout_entry (form folder_app)) = Some 300
   \<and> py_int (slide_entry (form folder_app)) = Some 10
   \<and> py_int (timeout_entry (form folder_again)) = Some 300
   \<and> py_int (slide_entry (form folder_again)) = Some 10
   \<and> mode_var (form folder_app) \<noteq> ''single'' \<and> mode_var (form folder_again) \<noteq> ''single''
   \<and> \<not> shuffle_var (form folder_app) \<and> \<not> shuffle_var (form folder_again)
   \<and> py_strip (path_entry (form folder_app)) = ''pics''
   \<and> py_strip (path_entry (form folder_again)) = ''pics''
   \<and> list_images_in_folder laptop ''pics'' = [''pics/a.png'', ''pics/b.JPG'', ''pics/c.webp'']"
  by code_simp

theorem folder_order_repeatable_witness:
  "current_images (snd (activate_screensaver laptop True folder_app))
     = [Some ''pics/a.png'', Some ''pics/b.JPG'', Some ''pics/c.webp'']
   \<and> current_images (snd (activate_screensaver laptop_later False folder_again))
     = [Some ''pics/a.png'', Some ''pics/b.JPG'', Some ''pics/c.webp'']"
  using folder_order_repeatable [of folder_app folder_again 300 10 300 10 "''pics''"
      laptop laptop_later True False]
    folder_form_facts
  by (simp add: laptop_later_def)

text \<open>
  With ordinary pictures three firings of the slideshow timer over the three images give
  the indices 1, 2, 0.
\<close>

lemma folder_show_three_ticks:
  "slideshow_index (slide_ticks laptop 1 folder_show) = 1
   \<and> slideshow_index (slide_ticks laptop 2 folder_show) = 2
   \<and> slideshow_index (slide_ticks laptop 3 folder_show) = 0"
  by code_simp

text \<open>
  C6. Where the second picture is the thin strip, the first firing of the timer moves the
  index to 1 and then fails in the drawing with Pillow's ValueError: \<^verbatim>\<open>next_slide\<close>
  does not return, and although there are three images no slideshow timer is scheduled
  (only the idle check is left waiting), so the slideshow has stopped.
\<close>

theorem next_slide_strip_stops:
  "saver_active (slideshow_due folder_show)
   \<and> length (current_images (slideshow_due folder_show)) = 3
   \<and> slideshow_index (slideshow_due folder_show) = 0
   \<and> fst (next_slide laptop_strip (slideshow_due folder_show)) = Some ValueError
   \<and> slideshow_index (snd (next_slide laptop_strip (slideshow_due folder_show))) = 1
   \<and> pending (snd (next_slide laptop_strip (slideshow_due folder_show))) = [(0, 1000, CheckIdle)]"
  by code_simp

end
